theory Spec2Isabelle
  imports Complex_Main
begin

section \<open>UltraTimer: the timer engine, its threshold effects and its preset store\<close>

text \<open>
  The development embeds \<^verbatim>\<open>Programming-Scripts/Timer/ultratimer.py\<close>. The class
  \<^verbatim>\<open>UltraTimer\<close> becomes a record of the attributes its timer methods read and write, every
  method a function from the state to a result. A Python exception leaves the assignments
  made before it in place, so a result is either the new state or an error together with
  the state at the point of the raise.

  Conventions of the embedding:
  \<^item> \<^verbatim>\<open>time.time()\<close> is a parameter \<open>now\<close>; times and \<^verbatim>\<open>self.remaining\<close> are exact
    real numbers (Python computes them in binary floating point; the concrete runs below
    use values that floating point represents exactly);
  \<^item> \<^verbatim>\<open>self.duration\<close> is an integer, as the literal of \<^verbatim>\<open>__init__\<close> and every caller
    of \<^verbatim>\<open>set_duration\<close> in the source make it;
  \<^item> \<^verbatim>\<open>self.stats\<close> is a JSON value: \<^verbatim>\<open>load_stats\<close> replaces the dict of
    \<^verbatim>\<open>__init__\<close> by whatever the statistics file holds, unchecked;
  \<^item> \<^verbatim>\<open>self.sound_enabled\<close> is created by \<^verbatim>\<open>open_settings\<close> only, so the attribute is
    optional: \<open>None\<close> until the settings window has been opened once;
  \<^item> the sounds and notifications handed to the operating system are appended to a
    trace \<open>effects\<close>; the three platform branches of \<^verbatim>\<open>play_sound\<close> and
    \<^verbatim>\<open>show_notification\<close> each issue one such effect, recorded with the argument of
    the call (the source plays the same system sound whatever \<^verbatim>\<open>sound_type\<close> is);
  \<^item> the file store \<open>fs\<close> holds the JSON files of the presets and the statistics;
  \<^item> one call of \<^verbatim>\<open>update_display\<close> is one tick; its last line, which asks Tk to call
    it again after 100 ms, is the caller of the next tick;
  \<^item> the glyphs in front of the button labels are left out of the label strings.
\<close>

subsection \<open>JSON documents and files\<close>

datatype json =
    JNull
  | JBool bool
  | JInt int
  | JFloat real
  | JStr string
  | JArr "json list"
  | JObj "(string \<times> json) list"

text \<open>
  A file holds a JSON document, or what is left when \<^verbatim>\<open>open(path, 'w')\<close> has emptied it
  and \<^verbatim>\<open>json.dump\<close> did not run to its end.
\<close>

datatype file_content = Document json | Partial

type_synonym file_store = "string \<rightharpoonup> file_content"

text \<open>What the file system does to one \<^verbatim>\<open>with open(path, 'w')\<close> block.\<close>

datatype io_fault = NoFault | OpenFails | WriteFails

datatype error =
    AttributeError
  | ZeroDivisionError
  | KeyError
  | TypeError
  | OSError
  | JSONDecodeError

subsection \<open>The data model\<close>

text \<open>
  \<^verbatim>\<open>TimerPreset\<close>: a dataclass, built from an untyped JSON object by
  \<^verbatim>\<open>TimerPreset(**preset_data)\<close>, which checks keys and no types. The fields therefore hold
  JSON values. The fields \<^verbatim>\<open>duration\<close> and \<^verbatim>\<open>sound_enabled\<close> carry the prefix \<open>preset_\<close>
  here, the unprefixed names being attributes of the timer itself; \<^verbatim>\<open>name\<close> follows suit.
\<close>

record timer_preset =
  preset_name :: json
  preset_duration :: json
  warning_time :: json
  critical_time :: json
  preset_sound_enabled :: json
  color_theme :: json

record theme =
  bg :: string
  fg :: string
  accent :: string

datatype effect = PlaySound string | Notification string

record ultra_timer =
  mode :: string
  is_running :: bool
  start_time :: real
  duration :: int
  elapsed :: real
  remaining :: real
  current_theme :: string
  presets_file :: string
  presets :: "(string \<times> timer_preset) list"
  stats :: json
  stats_file :: string
  sound_enabled :: "bool option"
  time_display_text :: string
  time_display_fg :: string
  progress_value :: real
  start_btn :: string
  status_bar :: string
  fs :: file_store
  effects :: "effect list"

type_synonym result = "(error \<times> ultra_timer) + ultra_timer"

definition state_of :: "result \<Rightarrow> ultra_timer" where
  "state_of r = (case r of Inl (e, s) \<Rightarrow> s | Inr s \<Rightarrow> s)"

definition raised :: "result \<Rightarrow> error option" where
  "raised r = (case r of Inl (e, s) \<Rightarrow> Some e | Inr s \<Rightarrow> None)"

text \<open>Sequencing of two statements: the second runs when the first did not raise.\<close>

definition and_then :: "result \<Rightarrow> (ultra_timer \<Rightarrow> result) \<Rightarrow> result" where
  "and_then r f = (case r of Inl x \<Rightarrow> Inl x | Inr s \<Rightarrow> f s)"

definition themes :: "(string \<times> theme) list" where
  "themes =
    [(''default'', \<lparr>bg = ''#1a1a2e'', fg = ''#eee'', accent = ''#16f4d0''\<rparr>),
     (''dark'', \<lparr>bg = ''#000'', fg = ''#0f0'', accent = ''#f00''\<rparr>),
     (''light'', \<lparr>bg = ''#fff'', fg = ''#000'', accent = ''#007acc''\<rparr>),
     (''neon'', \<lparr>bg = ''#0a0a0a'', fg = ''#ff00ff'', accent = ''#00ffff''\<rparr>),
     (''forest'', \<lparr>bg = ''#1b4332'', fg = ''#d8f3dc'', accent = ''#52b788''\<rparr>),
     (''ocean'', \<lparr>bg = ''#006494'', fg = ''#e8f4fd'', accent = ''#00a6fb''\<rparr>),
     (''sunset'', \<lparr>bg = ''#832161'', fg = ''#ffd23f'', accent = ''#ee4266''\<rparr>)]"

subsection \<open>Formatting\<close>

definition digit_char :: "nat \<Rightarrow> char" where
  "digit_char d = ''0123456789'' ! (d mod 10)"

fun digits :: "nat \<Rightarrow> string" where
  "digits n = (if n < 10 then [digit_char n] else digits (n div 10) @ [digit_char (n mod 10)])"

declare digits.simps [simp del]

text \<open>\<^verbatim>\<open>str(i)\<close> and the format \<^verbatim>\<open>{i:02d}\<close> of an integer.\<close>

definition str_int :: "int \<Rightarrow> string" where
  "str_int i = (if i < 0 then CHR ''-'' # digits (nat (- i)) else digits (nat i))"

definition fmt02 :: "int \<Rightarrow> string" where
  "fmt02 i = (let t = str_int i in if length t < 2 then CHR ''0'' # t else t)"

text \<open>Python's \<^verbatim>\<open>x % m\<close> on floats, for a positive \<open>m\<close>.\<close>

definition py_mod :: "real \<Rightarrow> real \<Rightarrow> real" where
  "py_mod x m = x - m * of_int \<lfloor>x / m\<rfloor>"

definition hours_of :: "real \<Rightarrow> int" where
  "hours_of x = \<lfloor>x / 3600\<rfloor>"

definition minutes_of :: "real \<Rightarrow> int" where
  "minutes_of x = \<lfloor>py_mod x 3600 / 60\<rfloor>"

definition seconds_of :: "real \<Rightarrow> int" where
  "seconds_of x = \<lfloor>py_mod x 60\<rfloor>"

subsection \<open>Sound, notification, statistics file\<close>

definition play_sound :: "string \<Rightarrow> ultra_timer \<Rightarrow> result" where
  "play_sound sound_type s =
    (case sound_enabled s of
       None \<Rightarrow> Inl (AttributeError, s)
     | Some enabled \<Rightarrow>
         if \<not> enabled then Inr s
         else Inr (s\<lparr>effects := effects s @ [PlaySound sound_type]\<rparr>))"

definition show_notification :: "string \<Rightarrow> ultra_timer \<Rightarrow> result" where
  "show_notification message s = Inr (s\<lparr>effects := effects s @ [Notification message]\<rparr>)"

text \<open>
  \<^verbatim>\<open>with open(path, 'w') as f: json.dump(doc, f, indent=2)\<close>: the file is written in place.
  Opening it empties it; a failure after that leaves it incomplete.
\<close>

definition write_json :: "io_fault \<Rightarrow> string \<Rightarrow> json \<Rightarrow> ultra_timer \<Rightarrow> result" where
  "write_json fault path doc s =
    (case fault of
       OpenFails \<Rightarrow> Inl (OSError, s)
     | WriteFails \<Rightarrow> Inl (OSError, s\<lparr>fs := (fs s)(path \<mapsto> Partial)\<rparr>)
     | NoFault \<Rightarrow> Inr (s\<lparr>fs := (fs s)(path \<mapsto> Document doc)\<rparr>))"

definition save_stats :: "io_fault \<Rightarrow> ultra_timer \<Rightarrow> result" where
  "save_stats fault s = write_json fault (stats_file s) (stats s) s"

text \<open>
  \<^verbatim>\<open>load_stats\<close>: when the file exists, \<^verbatim>\<open>self.stats\<close> becomes the document it holds,
  whatever its shape.
\<close>

definition load_stats :: "ultra_timer \<Rightarrow> result" where
  "load_stats s =
    (case fs s (stats_file s) of
       None \<Rightarrow> Inr s
     | Some Partial \<Rightarrow> Inl (JSONDecodeError, s)
     | Some (Document data) \<Rightarrow> Inr (s\<lparr>stats := data\<rparr>))"

text \<open>
  \<^verbatim>\<open>d[key] += 1\<close> on a JSON value. Only a dict can be indexed by a string; the key must be
  there; an integer, a float or a boolean (an integer in Python) takes the addition. The
  value keeps its place in the dict.
\<close>

fun dict_set :: "(string \<times> json) list \<Rightarrow> string \<Rightarrow> json \<Rightarrow> (string \<times> json) list" where
  "dict_set [] k v = [(k, v)]"
| "dict_set ((k', v') # kv) k v =
    (if k' = k then (k, v) # kv else (k', v') # dict_set kv k v)"

definition add_one :: "json \<Rightarrow> error + json" where
  "add_one v =
    (case v of
       JInt n \<Rightarrow> Inr (JInt (n + 1))
     | JFloat x \<Rightarrow> Inr (JFloat (x + 1))
     | JBool b \<Rightarrow> Inr (JInt ((if b then 1 else 0) + 1))
     | _ \<Rightarrow> Inl TypeError)"

definition increment :: "string \<Rightarrow> json \<Rightarrow> error + json" where
  "increment key d =
    (case d of
       JObj kv \<Rightarrow>
         (case map_of kv key of
            None \<Rightarrow> Inl KeyError
          | Some v \<Rightarrow>
              (case add_one v of
                 Inl e \<Rightarrow> Inl e
               | Inr v' \<Rightarrow> Inr (JObj (dict_set kv key v'))))
     | _ \<Rightarrow> Inl TypeError)"

subsection \<open>The tick: \<^verbatim>\<open>update_display\<close>\<close>

text \<open>The block under the comment \<^verbatim>\<open># Change colors based on time remaining\<close>.\<close>

definition change_colors :: "ultra_timer \<Rightarrow> result" where
  "change_colors s =
    (if remaining s \<le> 60 then
       (let s1 = s\<lparr>time_display_fg := ''#ff0000''\<rparr>
        in if remaining s1 = 60 then play_sound ''critical'' s1 else Inr s1)
     else if remaining s \<le> 120 then
       (let s1 = s\<lparr>time_display_fg := ''#ffff00''\<rparr>
        in if remaining s1 = 120 then play_sound ''warning'' s1 else Inr s1)
     else
       (case map_of themes (current_theme s) of
          None \<Rightarrow> Inl (KeyError, s)
        | Some th \<Rightarrow> Inr (s\<lparr>time_display_fg := fg th\<rparr>)))"

text \<open>The block under the comment \<^verbatim>\<open># Check if timer finished\<close>.\<close>

definition check_finished :: "io_fault \<Rightarrow> ultra_timer \<Rightarrow> result" where
  "check_finished fault s =
    (if remaining s = 0 then
       and_then (play_sound ''finish'' (s\<lparr>is_running := False\<rparr>)) (\<lambda>s1.
       and_then (show_notification ''Timer Finished!'' s1) (\<lambda>s2.
       (case increment ''completed_timers'' (stats s2) of
          Inl e \<Rightarrow> Inl (e, s2)
        | Inr counted \<Rightarrow> save_stats fault (s2\<lparr>stats := counted\<rparr>))))
     else Inr s)"

text \<open>The body of \<^verbatim>\<open>if self.is_running:\<close> in the timer, countdown and pomodoro modes.\<close>

definition count_down :: "io_fault \<Rightarrow> real \<Rightarrow> ultra_timer \<Rightarrow> result" where
  "count_down fault now s =
    (let elapsed' = now - start_time s;
         s1 = s\<lparr>remaining := max 0 (of_int (duration s) - elapsed')\<rparr>
     in if duration s1 = 0 then Inl (ZeroDivisionError, s1)
        else
          (let progress_percent =
                 ((of_int (duration s1) - remaining s1) / of_int (duration s1)) * 100;
               s2 = s1\<lparr>progress_value := progress_percent\<rparr>
           in and_then (change_colors s2) (check_finished fault)))"

definition show_remaining :: "ultra_timer \<Rightarrow> ultra_timer" where
  "show_remaining s =
    (let hours = hours_of (remaining s);
         minutes = minutes_of (remaining s);
         seconds = seconds_of (remaining s)
     in if hours > 0
        then s\<lparr>time_display_text := fmt02 hours @ '':'' @ fmt02 minutes @ '':'' @ fmt02 seconds\<rparr>
        else s\<lparr>time_display_text := fmt02 minutes @ '':'' @ fmt02 seconds\<rparr>)"

definition show_elapsed :: "ultra_timer \<Rightarrow> ultra_timer" where
  "show_elapsed s =
    s\<lparr>time_display_text :=
        fmt02 (hours_of (elapsed s)) @ '':'' @ fmt02 (minutes_of (elapsed s)) @ '':''
          @ fmt02 (seconds_of (elapsed s))\<rparr>"

definition update_display :: "io_fault \<Rightarrow> real \<Rightarrow> ultra_timer \<Rightarrow> result" where
  "update_display fault now s =
    (if mode s = ''clock'' then Inr s
     else if mode s = ''stopwatch'' then
       Inr (show_elapsed (if is_running s then s\<lparr>elapsed := now - start_time s\<rparr> else s))
     else if mode s \<in> set [''timer'', ''countdown'', ''pomodoro''] then
       and_then (if is_running s then count_down fault now s else Inr s)
         (\<lambda>s1. Inr (show_remaining s1))
     else Inr s)"

subsection \<open>The operations\<close>

definition toggle_timer :: "real \<Rightarrow> ultra_timer \<Rightarrow> ultra_timer" where
  "toggle_timer now s =
    (if is_running s then
       s\<lparr>is_running := False, start_btn := ''Start'', status_bar := ''Paused''\<rparr>
     else
       (let s1 = s\<lparr>is_running := True, start_btn := ''Pause'', status_bar := ''Running''\<rparr>
        in if mode s1 = ''stopwatch'' then s1\<lparr>start_time := now - elapsed s1\<rparr>
           else if mode s1 \<in> set [''timer'', ''countdown'', ''pomodoro'']
           then s1\<lparr>start_time := now\<rparr>
           else s1))"

definition reset_timer :: "io_fault \<Rightarrow> real \<Rightarrow> ultra_timer \<Rightarrow> result" where
  "reset_timer fault now s =
    and_then
      (update_display fault now
        (s\<lparr>is_running := False, elapsed := 0, remaining := of_int (duration s),
           start_btn := ''Start'', progress_value := 0\<rparr>))
      (\<lambda>s1. Inr (s1\<lparr>status_bar := ''Reset''\<rparr>))"

definition set_duration :: "io_fault \<Rightarrow> real \<Rightarrow> int \<Rightarrow> ultra_timer \<Rightarrow> result" where
  "set_duration fault now seconds s =
    and_then
      (update_display fault now (s\<lparr>duration := seconds, remaining := of_int seconds\<rparr>))
      (\<lambda>s1. Inr (s1\<lparr>status_bar :=
          ''Duration set to '' @ str_int (seconds div 60) @ '' minutes''\<rparr>))"

text \<open>A run of ticks at the given clock readings; an exception ends the run.\<close>

fun ticks :: "io_fault \<Rightarrow> real list \<Rightarrow> ultra_timer \<Rightarrow> result" where
  "ticks fault [] s = Inr s"
| "ticks fault (now # rest) s = and_then (update_display fault now s) (ticks fault rest)"


subsection \<open>The preset store\<close>

text \<open>\<^verbatim>\<open>vars(preset)\<close>: the fields of the dataclass, in the order of their declaration.\<close>

definition vars_preset :: "timer_preset \<Rightarrow> json" where
  "vars_preset p =
    JObj [(''name'', preset_name p),
          (''duration'', preset_duration p),
          (''warning_time'', warning_time p),
          (''critical_time'', critical_time p),
          (''sound_enabled'', preset_sound_enabled p),
          (''color_theme'', color_theme p)]"

definition presets_doc :: "(string \<times> timer_preset) list \<Rightarrow> json" where
  "presets_doc ps = JObj (map (\<lambda>(name, preset). (name, vars_preset preset)) ps)"

definition save_presets :: "io_fault \<Rightarrow> ultra_timer \<Rightarrow> result" where
  "save_presets fault s = write_json fault (presets_file s) (presets_doc (presets s)) s"

definition preset_fields :: "string list" where
  "preset_fields =
    [''name'', ''duration'', ''warning_time'', ''critical_time'', ''sound_enabled'',
     ''color_theme'']"

definition get_default :: "(string \<times> json) list \<Rightarrow> string \<Rightarrow> json \<Rightarrow> json" where
  "get_default kw k d = (case map_of kw k of None \<Rightarrow> d | Some v \<Rightarrow> v)"

text \<open>
  \<^verbatim>\<open>TimerPreset(**preset_data)\<close>: the argument must be a mapping, every key the name of a
  field, \<^verbatim>\<open>name\<close> and \<^verbatim>\<open>duration\<close> present; the other fields have the defaults of the
  dataclass. An object is the list of the items of a Python dict, so its keys are distinct.
\<close>

definition TimerPreset :: "json \<Rightarrow> error + timer_preset" where
  "TimerPreset preset_data =
    (case preset_data of
       JObj kw \<Rightarrow>
         if list_ex (\<lambda>k. k \<notin> set preset_fields) (map fst kw) then Inl TypeError
         else
           (case map_of kw ''name'' of
              None \<Rightarrow> Inl TypeError
            | Some n \<Rightarrow>
                (case map_of kw ''duration'' of
                   None \<Rightarrow> Inl TypeError
                 | Some d \<Rightarrow>
                     Inr \<lparr>preset_name = n, preset_duration = d,
                          warning_time = get_default kw ''warning_time'' (JInt 120),
                          critical_time = get_default kw ''critical_time'' (JInt 60),
                          preset_sound_enabled = get_default kw ''sound_enabled'' (JBool True),
                          color_theme = get_default kw ''color_theme'' (JStr ''default'')\<rparr>))
     | _ \<Rightarrow> Inl TypeError)"

text \<open>The dict comprehension of \<^verbatim>\<open>load_presets\<close>, item by item.\<close>

fun load_items :: "(string \<times> json) list \<Rightarrow> error + (string \<times> timer_preset) list" where
  "load_items [] = Inr []"
| "load_items ((name, preset_data) # rest) =
    (case TimerPreset preset_data of
       Inl e \<Rightarrow> Inl e
     | Inr preset \<Rightarrow>
         (case load_items rest of
            Inl e \<Rightarrow> Inl e
          | Inr ps \<Rightarrow> Inr ((name, preset) # ps)))"

definition load_presets :: "ultra_timer \<Rightarrow> error + (string \<times> timer_preset) list" where
  "load_presets s =
    (case fs s (presets_file s) of
       None \<Rightarrow> Inr []
     | Some Partial \<Rightarrow> Inl JSONDecodeError
     | Some (Document data) \<Rightarrow>
         (case data of
            JObj items \<Rightarrow> load_items items
          | _ \<Rightarrow> Inl AttributeError))"

subsection \<open>The remote-control thread\<close>

text \<open>
  \<^verbatim>\<open>run_server\<close>, the body of the thread that \<^verbatim>\<open>start_web_server\<close> starts. It finds a free
  port, writes the remote-control page to a temporary file, constructs
  \<^verbatim>\<open>HTTPServer(('0.0.0.0', port), SimpleHTTPRequestHandler)\<close>, shows the address in the
  status bar and returns. The argument is the port and the host address found, or \<open>None\<close>
  when one of these calls raised: the exception is caught and printed. Nothing here calls
  \<^verbatim>\<open>serve_forever\<close>, defines a handler, or calls a method of the timer. The temporary
  file is no file of the store \<open>fs\<close>.
\<close>

definition run_server :: "(nat \<times> string) option \<Rightarrow> ultra_timer \<Rightarrow> ultra_timer" where
  "run_server net s =
    (case net of
       None \<Rightarrow> s
     | Some (port, ip) \<Rightarrow>
         s\<lparr>status_bar := ''Remote: http://'' @ ip @ '':'' @ str_int (int port)\<rparr>)"

subsection \<open>States used in the concrete runs\<close>

text \<open>The attributes as \<^verbatim>\<open>__init__\<close> sets them when no preset or statistics file exists.\<close>

definition initial :: ultra_timer where
  "initial =
    \<lparr>mode = ''clock'', is_running = False, start_time = 0, duration = 300, elapsed = 0,
     remaining = 0, current_theme = ''default'',
     presets_file = ''~/.ultratimer_presets.json'', presets = [],
     stats = JObj [(''total_sessions'', JInt 0), (''total_time'', JInt 0),
                   (''completed_timers'', JInt 0), (''average_duration'', JInt 0)],
     stats_file = ''~/.ultratimer_stats.json'', sound_enabled = None,
     time_display_text = ''00:00:00'', time_display_fg = ''#eee'', progress_value = 0,
     start_btn = ''Start'', status_bar = ''Ready'', fs = Map.empty, effects = []\<rparr>"

text \<open>
  After F2 (timer mode, which resets: five minutes remain) and one visit to the settings
  window (which creates the sound switch, switched on).
\<close>

definition timer_ready :: ultra_timer where
  "timer_ready =
    initial\<lparr>mode := ''timer'', remaining := 300, sound_enabled := Some True,
            time_display_text := ''05:00'', status_bar := ''Mode: Timer''\<rparr>"

text \<open>
  A stored preset: the state after the preset \<^verbatim>\<open>tea\<close> has been saved, and the same state
  with a second preset added to the mapping and not yet saved.
\<close>

definition tea :: timer_preset where
  "tea = \<lparr>preset_name = JStr ''tea'', preset_duration = JInt 180, warning_time = JInt 120,
           critical_time = JInt 60, preset_sound_enabled = JBool True,
           color_theme = JStr ''default''\<rparr>"

definition egg :: timer_preset where
  "egg = \<lparr>preset_name = JStr ''egg'', preset_duration = JInt 360, warning_time = JInt 120,
           critical_time = JInt 60, preset_sound_enabled = JBool False,
           color_theme = JStr ''forest''\<rparr>"

definition tea_saved :: ultra_timer where
  "tea_saved = state_of (save_presets NoFault (timer_ready\<lparr>presets := [(''tea'', tea)]\<rparr>))"

definition egg_added :: ultra_timer where
  "egg_added = tea_saved\<lparr>presets := [(''tea'', tea), (''egg'', egg)]\<rparr>"

text \<open>
  The program started again on the files that a save of the two presets left: the
  attributes are those of \<^verbatim>\<open>__init__\<close>, with no preset in memory yet.
\<close>

definition restarted :: ultra_timer where
  "restarted = initial\<lparr>fs := fs (state_of (save_presets NoFault egg_added))\<rparr>"

text \<open>
  A statistics file that holds the session total only, loaded as \<^verbatim>\<open>__init__\<close> does.
\<close>

definition totals_only :: ultra_timer where
  "totals_only =
    state_of (load_stats
      (timer_ready\<lparr>fs := [stats_file timer_ready \<mapsto>
          Document (JObj [(''total_sessions'', JInt 3)])]\<rparr>))"

text \<open>
  A session with a pause: started at 0, sampled at 100, paused at 100, sampled at 130
  while paused, started again at 150 and sampled at once.
\<close>

definition running_100 :: ultra_timer where
  "running_100 = state_of (update_display NoFault 100 (toggle_timer 0 timer_ready))"

definition paused_130 :: ultra_timer where
  "paused_130 = state_of (update_display NoFault 130 (toggle_timer 100 running_100))"

definition resumed_150 :: ultra_timer where
  "resumed_150 = state_of (update_display NoFault 150 (toggle_timer 150 paused_130))"

text \<open>
  The statistics after \<^verbatim>\<open>self.stats["completed_timers"] += 1\<close>, unchanged when the
  statement raises, and the error it raises, if any.
\<close>

definition counted :: "json \<Rightarrow> json" where
  "counted d = (case increment ''completed_timers'' d of Inl e \<Rightarrow> d | Inr d' \<Rightarrow> d')"

definition count_error :: "json \<Rightarrow> error option" where
  "count_error d = (case increment ''completed_timers'' d of Inl e \<Rightarrow> Some e | Inr d' \<Rightarrow> None)"

text \<open>A sample at which none of the three equality tests of the tick holds.\<close>

definition quiet_sample :: "ultra_timer \<Rightarrow> real \<Rightarrow> bool" where
  "quiet_sample s now =
    (let r = max 0 (of_int (duration s) - (now - start_time s))
     in r \<noteq> 0 \<and> r \<noteq> 60 \<and> r \<noteq> 120)"

section \<open>Properties\<close>

subsection \<open>Results and sequencing\<close>

lemma state_of_simps [simp]:
  "state_of (Inr s) = s" "state_of (Inl (e, s)) = s"
  by (simp_all add: state_of_def)

lemma raised_simps [simp]:
  "raised (Inr s) = None" "raised (Inl (e, s)) = Some e"
  by (simp_all add: raised_def)

lemma and_then_simps [simp]:
  "and_then (Inr s) f = f s" "and_then (Inl x) f = Inl x"
  by (simp_all add: and_then_def)

lemma state_of_and_then:
  "state_of (and_then r f) = (if raised r = None then state_of (f (state_of r)) else state_of r)"
  by (cases r) auto

lemma raised_and_then:
  "raised (and_then r f) = (if raised r = None then raised (f (state_of r)) else raised r)"
  by (cases r) auto

lemma raised_None_Inr: "raised r = None \<Longrightarrow> r = Inr (state_of r)"
  by (cases r) auto

subsection \<open>What each part of the tick leaves alone\<close>

lemma play_sound_frame [simp]:
  "mode (state_of (play_sound k s)) = mode s"
  "duration (state_of (play_sound k s)) = duration s"
  "start_time (state_of (play_sound k s)) = start_time s"
  "current_theme (state_of (play_sound k s)) = current_theme s"
  "sound_enabled (state_of (play_sound k s)) = sound_enabled s"
  "remaining (state_of (play_sound k s)) = remaining s"
  "is_running (state_of (play_sound k s)) = is_running s"
  "stats (state_of (play_sound k s)) = stats s"
  "stats_file (state_of (play_sound k s)) = stats_file s"
  "fs (state_of (play_sound k s)) = fs s"
  "effects (state_of (play_sound k s)) =
     effects s @ (if sound_enabled s = Some True then [PlaySound k] else [])"
  by (simp_all add: play_sound_def split: option.splits)

lemma play_sound_raised [simp]:
  "raised (play_sound k s) = (if sound_enabled s = None then Some AttributeError else None)"
  by (simp add: play_sound_def split: option.splits)

lemma change_colors_frame [simp]:
  "mode (state_of (change_colors s)) = mode s"
  "duration (state_of (change_colors s)) = duration s"
  "start_time (state_of (change_colors s)) = start_time s"
  "current_theme (state_of (change_colors s)) = current_theme s"
  "sound_enabled (state_of (change_colors s)) = sound_enabled s"
  "remaining (state_of (change_colors s)) = remaining s"
  "is_running (state_of (change_colors s)) = is_running s"
  "stats (state_of (change_colors s)) = stats s"
  "stats_file (state_of (change_colors s)) = stats_file s"
  "fs (state_of (change_colors s)) = fs s"
  by (simp_all add: change_colors_def Let_def split: option.splits)

lemma change_colors_effects:
  "effects (state_of (change_colors s)) =
     effects s @
       (if sound_enabled s = Some True \<and> remaining s = 60 then [PlaySound ''critical'']
        else if sound_enabled s = Some True \<and> remaining s = 120 then [PlaySound ''warning'']
        else [])"
  by (simp add: change_colors_def Let_def split: option.splits)

lemma change_colors_raised:
  "raised (change_colors s) =
     (if remaining s = 60 \<or> remaining s = 120 then
        (if sound_enabled s = None then Some AttributeError else None)
      else if remaining s \<le> 120 then None
      else if map_of themes (current_theme s) = None then Some KeyError else None)"
  by (simp add: change_colors_def Let_def split: option.splits)

lemma save_stats_frame [simp]:
  "mode (state_of (save_stats fault s)) = mode s"
  "duration (state_of (save_stats fault s)) = duration s"
  "start_time (state_of (save_stats fault s)) = start_time s"
  "current_theme (state_of (save_stats fault s)) = current_theme s"
  "sound_enabled (state_of (save_stats fault s)) = sound_enabled s"
  "remaining (state_of (save_stats fault s)) = remaining s"
  "is_running (state_of (save_stats fault s)) = is_running s"
  "stats (state_of (save_stats fault s)) = stats s"
  "stats_file (state_of (save_stats fault s)) = stats_file s"
  "effects (state_of (save_stats fault s)) = effects s"
  by (simp_all add: save_stats_def write_json_def split: io_fault.splits)

lemma save_stats_raised [simp]:
  "raised (save_stats fault s) = (if fault = NoFault then None else Some OSError)"
  by (simp add: save_stats_def write_json_def split: io_fault.splits)

lemma map_of_dict_set: "map_of (dict_set kv k v) = (map_of kv)(k \<mapsto> v)"
  by (induction kv) auto

lemma counted_int:
  assumes "map_of kv ''completed_timers'' = Some (JInt n)"
  shows "counted (JObj kv) = JObj (dict_set kv ''completed_timers'' (JInt (n + 1)))"
    and "count_error (JObj kv) = None"
  using assms by (simp_all add: counted_def count_error_def increment_def add_one_def)

lemma check_finished_frame [simp]:
  "mode (state_of (check_finished fault s)) = mode s"
  "duration (state_of (check_finished fault s)) = duration s"
  "start_time (state_of (check_finished fault s)) = start_time s"
  "current_theme (state_of (check_finished fault s)) = current_theme s"
  "sound_enabled (state_of (check_finished fault s)) = sound_enabled s"
  "remaining (state_of (check_finished fault s)) = remaining s"
  "stats_file (state_of (check_finished fault s)) = stats_file s"
  by (simp_all add: check_finished_def state_of_and_then show_notification_def
      split: sum.splits)

lemma check_finished_running:
  "is_running (state_of (check_finished fault s)) = (is_running s \<and> remaining s \<noteq> 0)"
  by (simp add: check_finished_def state_of_and_then show_notification_def
      split: sum.splits)

lemma check_finished_stats:
  "stats (state_of (check_finished fault s)) =
     (if remaining s = 0 \<and> sound_enabled s \<noteq> None
      then counted (stats s)
      else stats s)"
  by (simp add: check_finished_def state_of_and_then show_notification_def counted_def
      split: sum.splits)

lemma check_finished_effects:
  "effects (state_of (check_finished fault s)) =
     effects s @
       (if remaining s = 0 \<and> sound_enabled s \<noteq> None
        then (if sound_enabled s = Some True then [PlaySound ''finish''] else [])
               @ [Notification ''Timer Finished!'']
        else [])"
  by (simp add: check_finished_def state_of_and_then show_notification_def
      split: sum.splits)

lemma check_finished_raised:
  "raised (check_finished fault s) =
     (if remaining s \<noteq> 0 then None
      else if sound_enabled s = None then Some AttributeError
      else if count_error (stats s) \<noteq> None then count_error (stats s)
      else if fault = NoFault then None else Some OSError)"
  by (simp add: check_finished_def raised_and_then show_notification_def count_error_def
      split: sum.splits)

subsection \<open>The countdown step in closed form\<close>

lemma count_down_frame [simp]:
  "mode (state_of (count_down fault now s)) = mode s"
  "duration (state_of (count_down fault now s)) = duration s"
  "start_time (state_of (count_down fault now s)) = start_time s"
  "current_theme (state_of (count_down fault now s)) = current_theme s"
  "sound_enabled (state_of (count_down fault now s)) = sound_enabled s"
  "stats_file (state_of (count_down fault now s)) = stats_file s"
  by (simp_all add: count_down_def Let_def state_of_and_then)

lemma count_down_remaining:
  "remaining (state_of (count_down fault now s)) =
     max 0 (of_int (duration s) - (now - start_time s))"
  by (simp add: count_down_def Let_def state_of_and_then)

lemma count_down_running:
  "is_running (state_of (count_down fault now s)) =
     (is_running s \<and>
      (duration s = 0 \<or> max 0 (of_int (duration s) - (now - start_time s)) \<noteq> 0))"
  by (auto simp add: count_down_def Let_def state_of_and_then check_finished_running
      change_colors_raised)

lemma count_down_stats:
  "stats (state_of (count_down fault now s)) =
     (if duration s \<noteq> 0 \<and> max 0 (of_int (duration s) - (now - start_time s)) = 0
         \<and> sound_enabled s \<noteq> None
      then counted (stats s)
      else stats s)"
  by (auto simp add: count_down_def Let_def state_of_and_then check_finished_stats
      change_colors_raised)

lemma count_down_effects:
  "effects (state_of (count_down fault now s)) =
     effects s @
       (let r = max 0 (of_int (duration s) - (now - start_time s))
        in if duration s = 0 \<or> sound_enabled s = None then []
           else if r = 60 then (if sound_enabled s = Some True then [PlaySound ''critical''] else [])
           else if r = 120 then (if sound_enabled s = Some True then [PlaySound ''warning''] else [])
           else if r = 0 then (if sound_enabled s = Some True then [PlaySound ''finish''] else [])
               @ [Notification ''Timer Finished!'']
           else [])"
  by (auto simp add: count_down_def Let_def state_of_and_then check_finished_effects
      change_colors_effects change_colors_raised)

lemma count_down_raised:
  "raised (count_down fault now s) =
     (let r = max 0 (of_int (duration s) - (now - start_time s))
      in if duration s = 0 then Some ZeroDivisionError
         else if r = 60 \<or> r = 120 then (if sound_enabled s = None then Some AttributeError else None)
         else if r = 0 then
           (if sound_enabled s = None then Some AttributeError
            else if count_error (stats s) \<noteq> None then count_error (stats s)
            else if fault = NoFault then None else Some OSError)
         else if r \<le> 120 then None
         else if map_of themes (current_theme s) = None then Some KeyError else None)"
  by (auto simp add: count_down_def Let_def raised_and_then check_finished_raised
      change_colors_raised)

subsection \<open>What the display leaves alone\<close>

lemma show_remaining_frame [simp]:
  "mode (show_remaining s) = mode s"
  "duration (show_remaining s) = duration s"
  "start_time (show_remaining s) = start_time s"
  "current_theme (show_remaining s) = current_theme s"
  "sound_enabled (show_remaining s) = sound_enabled s"
  "stats_file (show_remaining s) = stats_file s"
  "remaining (show_remaining s) = remaining s"
  "elapsed (show_remaining s) = elapsed s"
  "is_running (show_remaining s) = is_running s"
  "stats (show_remaining s) = stats s"
  "effects (show_remaining s) = effects s"
  "fs (show_remaining s) = fs s"
  by (simp_all add: show_remaining_def Let_def)

lemma show_elapsed_frame [simp]:
  "mode (show_elapsed s) = mode s"
  "duration (show_elapsed s) = duration s"
  "remaining (show_elapsed s) = remaining s"
  "elapsed (show_elapsed s) = elapsed s"
  "is_running (show_elapsed s) = is_running s"
  "start_time (show_elapsed s) = start_time s"
  "stats (show_elapsed s) = stats s"
  "effects (show_elapsed s) = effects s"
  by (simp_all add: show_elapsed_def)

subsection \<open>One tick, in closed form\<close>

lemma update_display_counting:
  assumes "mode s \<in> set [''timer'', ''countdown'', ''pomodoro'']"
  shows "update_display fault now s =
    and_then (if is_running s then count_down fault now s else Inr s)
      (\<lambda>s1. Inr (show_remaining s1))"
  using assms by (auto simp add: update_display_def)

lemma tick_frame:
  assumes "mode s \<in> set [''timer'', ''countdown'', ''pomodoro'']"
  shows "mode (state_of (update_display fault now s)) = mode s"
    and "duration (state_of (update_display fault now s)) = duration s"
    and "start_time (state_of (update_display fault now s)) = start_time s"
    and "current_theme (state_of (update_display fault now s)) = current_theme s"
    and "sound_enabled (state_of (update_display fault now s)) = sound_enabled s"
  by (simp_all add: update_display_counting [OF assms] state_of_and_then)

lemma tick_remaining:
  assumes "mode s \<in> set [''timer'', ''countdown'', ''pomodoro'']"
  shows "remaining (state_of (update_display fault now s)) =
     (if is_running s then max 0 (of_int (duration s) - (now - start_time s))
      else remaining s)"
  by (simp add: update_display_counting [OF assms] state_of_and_then count_down_remaining)

lemma tick_running:
  assumes "mode s \<in> set [''timer'', ''countdown'', ''pomodoro'']"
  shows "is_running (state_of (update_display fault now s)) =
     (is_running s \<and>
      (duration s = 0 \<or> max 0 (of_int (duration s) - (now - start_time s)) \<noteq> 0))"
  by (simp add: update_display_counting [OF assms] state_of_and_then count_down_running)

lemma tick_stats:
  assumes "mode s \<in> set [''timer'', ''countdown'', ''pomodoro'']"
  shows "stats (state_of (update_display fault now s)) =
     (if is_running s \<and> duration s \<noteq> 0
         \<and> max 0 (of_int (duration s) - (now - start_time s)) = 0
         \<and> sound_enabled s \<noteq> None
      then counted (stats s)
      else stats s)"
  by (auto simp add: update_display_counting [OF assms] state_of_and_then count_down_stats)

lemma tick_effects:
  assumes "mode s \<in> set [''timer'', ''countdown'', ''pomodoro'']"
  shows "effects (state_of (update_display fault now s)) =
     effects s @
       (let r = max 0 (of_int (duration s) - (now - start_time s))
        in if \<not> is_running s \<or> duration s = 0 \<or> sound_enabled s = None then []
           else if r = 60 then (if sound_enabled s = Some True then [PlaySound ''critical''] else [])
           else if r = 120 then (if sound_enabled s = Some True then [PlaySound ''warning''] else [])
           else if r = 0 then (if sound_enabled s = Some True then [PlaySound ''finish''] else [])
               @ [Notification ''Timer Finished!'']
           else [])"
  by (simp add: update_display_counting [OF assms] state_of_and_then count_down_effects Let_def)

lemma tick_raised:
  assumes "mode s \<in> set [''timer'', ''countdown'', ''pomodoro'']"
  shows "raised (update_display fault now s) =
     (if \<not> is_running s then None else raised (count_down fault now s))"
  by (simp add: update_display_counting [OF assms] raised_and_then)

lemma update_display_stopped:
  assumes "\<not> is_running s"
  shows "raised (update_display fault now s) = None"
    and "mode (state_of (update_display fault now s)) = mode s"
    and "duration (state_of (update_display fault now s)) = duration s"
    and "remaining (state_of (update_display fault now s)) = remaining s"
    and "elapsed (state_of (update_display fault now s)) = elapsed s"
    and "is_running (state_of (update_display fault now s)) = is_running s"
    and "stats (state_of (update_display fault now s)) = stats s"
    and "effects (state_of (update_display fault now s)) = effects s"
    and "start_time (state_of (update_display fault now s)) = start_time s"
  using assms by (simp_all add: update_display_def)


subsection \<open>Runs of ticks\<close>

lemma ticks_append:
  "ticks fault (xs @ ys) s = and_then (ticks fault xs s) (ticks fault ys)"
proof (induction xs arbitrary: s)
  case Nil
  show ?case by simp
next
  case (Cons now xs)
  show ?case
  proof (cases "update_display fault now s")
    case (Inl x)
    then show ?thesis by simp
  next
    case (Inr s1)
    then show ?thesis using Cons.IH [of s1] by simp
  qed
qed

lemma stopped_ticks:
  assumes "\<not> is_running s"
  shows "raised (ticks fault nows s) = None
       \<and> \<not> is_running (state_of (ticks fault nows s))
       \<and> remaining (state_of (ticks fault nows s)) = remaining s
       \<and> stats (state_of (ticks fault nows s)) = stats s
       \<and> effects (state_of (ticks fault nows s)) = effects s"
  using assms
proof (induction nows arbitrary: s)
  case Nil
  then show ?case by simp
next
  case (Cons now nows)
  obtain s1 where step: "update_display fault now s = Inr s1"
    using raised_None_Inr [OF update_display_stopped(1) [OF Cons.prems]] by blast
  have s1: "\<not> is_running s1" "remaining s1 = remaining s" "stats s1 = stats s"
    "effects s1 = effects s"
    using update_display_stopped [OF Cons.prems, of fault now] Cons.prems
    by (simp_all add: step)
  show ?case
    using Cons.IH [OF s1(1)] s1 by (simp add: step)
qed

subsection \<open>Start and pause\<close>

lemma toggle_timer_frame [simp]:
  "mode (toggle_timer now s) = mode s"
  "duration (toggle_timer now s) = duration s"
  "remaining (toggle_timer now s) = remaining s"
  "elapsed (toggle_timer now s) = elapsed s"
  "current_theme (toggle_timer now s) = current_theme s"
  "sound_enabled (toggle_timer now s) = sound_enabled s"
  "stats (toggle_timer now s) = stats s"
  "effects (toggle_timer now s) = effects s"
  "is_running (toggle_timer now s) = (\<not> is_running s)"
  by (simp_all add: toggle_timer_def Let_def)

lemma toggle_timer_start_time:
  assumes "mode s \<in> set [''timer'', ''countdown'', ''pomodoro'']"
  shows "start_time (toggle_timer now s) = (if is_running s then start_time s else now)"
  using assms by (auto simp add: toggle_timer_def Let_def)

lemma timer_ready_fields [simp]:
  "mode timer_ready = ''timer''"
  "duration timer_ready = 300"
  "remaining timer_ready = 300"
  "is_running timer_ready = False"
  "sound_enabled timer_ready = Some True"
  "current_theme timer_ready = ''default''"
  "effects timer_ready = []"
  "stats timer_ready =
     JObj [(''total_sessions'', JInt 0), (''total_time'', JInt 0),
           (''completed_timers'', JInt 0), (''average_duration'', JInt 0)]"
  by (simp_all add: timer_ready_def initial_def)

subsection \<open>Setting the duration\<close>

lemma update_display_duration:
  "duration (state_of (update_display fault now s)) = duration s"
  by (simp add: update_display_def state_of_and_then)

lemma set_duration_state:
  "state_of (set_duration fault now seconds s) =
     (let r = update_display fault now (s\<lparr>duration := seconds, remaining := of_int seconds\<rparr>)
      in if raised r = None
         then (state_of r)\<lparr>status_bar :=
           ''Duration set to '' @ str_int (seconds div 60) @ '' minutes''\<rparr>
         else state_of r)"
  by (simp add: set_duration_def state_of_and_then Let_def)

lemma set_duration_raised:
  "raised (set_duration fault now seconds s) =
     raised (update_display fault now (s\<lparr>duration := seconds, remaining := of_int seconds\<rparr>))"
  by (simp add: set_duration_def raised_and_then)

subsection \<open>Runs of ticks that meet no equality test\<close>

lemma quiet_ticks:
  assumes "mode s \<in> set [''timer'', ''countdown'', ''pomodoro'']"
    and "is_running s"
    and "duration s \<noteq> 0"
    and "map_of themes (current_theme s) \<noteq> None"
    and "\<forall>now \<in> set nows. quiet_sample s now"
  shows "raised (ticks fault nows s) = None
       \<and> mode (state_of (ticks fault nows s)) = mode s
       \<and> is_running (state_of (ticks fault nows s))
       \<and> duration (state_of (ticks fault nows s)) = duration s
       \<and> start_time (state_of (ticks fault nows s)) = start_time s
       \<and> sound_enabled (state_of (ticks fault nows s)) = sound_enabled s
       \<and> stats (state_of (ticks fault nows s)) = stats s
       \<and> effects (state_of (ticks fault nows s)) = effects s"
  using assms
proof (induction nows arbitrary: s)
  case Nil
  then show ?case by simp
next
  case (Cons now nows)
  note m = Cons.prems(1)
  have q: "quiet_sample s now" using Cons.prems(5) by simp
  have ok: "raised (update_display fault now s) = None"
    using q Cons.prems(2,3,4)
    by (auto simp add: tick_raised [OF m] count_down_raised quiet_sample_def Let_def)
  then obtain s1 where step: "update_display fault now s = Inr s1"
    using raised_None_Inr by blast
  have s1: "mode s1 = mode s" "duration s1 = duration s" "start_time s1 = start_time s"
    "current_theme s1 = current_theme s" "sound_enabled s1 = sound_enabled s"
    using tick_frame [OF m, of fault now] by (simp_all add: step)
  have run: "is_running s1"
    using tick_running [OF m, of fault now] q Cons.prems(2)
    by (simp add: step quiet_sample_def Let_def)
  have st: "stats s1 = stats s"
    using tick_stats [OF m, of fault now] q
    by (simp add: step quiet_sample_def Let_def)
  have ef: "effects s1 = effects s"
    using tick_effects [OF m, of fault now] q
    by (simp add: step quiet_sample_def Let_def)
  have q1: "\<forall>now \<in> set nows. quiet_sample s1 now"
    using Cons.prems(5) by (simp add: quiet_sample_def s1)
  have m1: "mode s1 \<in> set [''timer'', ''countdown'', ''pomodoro'']"
    using m by (simp only: s1)
  have d1: "duration s1 \<noteq> 0" using Cons.prems(3) by (simp add: s1)
  have th1: "map_of themes (current_theme s1) \<noteq> None" using Cons.prems(4) by (simp add: s1)
  show ?case
    using Cons.IH [OF m1 run d1 th1 q1] s1 st ef by (simp add: step)
qed

lemma and_then_ticks_Nil: "and_then r (ticks fault []) = r"
  by (cases r) auto

lemma ticks_snoc:
  assumes "raised (ticks fault nows s) = None"
  shows "ticks fault (nows @ [now]) s = update_display fault now (state_of (ticks fault nows s))"
proof -
  have "ticks fault nows s = Inr (state_of (ticks fault nows s))"
    using assms by (rule raised_None_Inr)
  then have "and_then (ticks fault nows s) (ticks fault [now]) =
      ticks fault [now] (state_of (ticks fault nows s))"
    by (metis and_then_simps(1))
  then show ?thesis
    by (simp add: ticks_append and_then_ticks_Nil)
qed

lemma default_theme: "map_of themes ''default'' \<noteq> None"
  by (simp add: themes_def)

subsection \<open>Files and presets\<close>

lemma write_json_cases:
  "write_json NoFault path doc s = Inr (s\<lparr>fs := (fs s)(path \<mapsto> Document doc)\<rparr>)"
  "write_json OpenFails path doc s = Inl (OSError, s)"
  "write_json WriteFails path doc s = Inl (OSError, s\<lparr>fs := (fs s)(path \<mapsto> Partial)\<rparr>)"
  by (simp_all add: write_json_def)

lemma TimerPreset_vars: "TimerPreset (vars_preset p) = Inr p"
  by (simp add: TimerPreset_def vars_preset_def preset_fields_def get_default_def)

lemma load_items_vars:
  "load_items (map (\<lambda>(name, preset). (name, vars_preset preset)) ps) = Inr ps"
proof (induction ps)
  case Nil
  show ?case by simp
next
  case (Cons item ps)
  obtain name preset where item: "item = (name, preset)" by (cases item)
  show ?case using Cons.IH by (simp add: item TimerPreset_vars)
qed

subsection \<open>A statistics file without the counter\<close>

text \<open>
  The finishing tick on statistics that lack \<^verbatim>\<open>completed_timers\<close>: the sound and the
  notification are out, then the increment raises \<^verbatim>\<open>KeyError\<close>; nothing is counted.
\<close>

lemma totals_only_fields:
  "mode totals_only = ''timer''" "duration totals_only = 300"
  "is_running totals_only = False" "sound_enabled totals_only = Some True"
  "effects totals_only = []" "stats totals_only = JObj [(''total_sessions'', JInt 3)]"
  by (simp_all add: totals_only_def load_stats_def timer_ready_def initial_def)

lemma finishing_tick_without_counter:
  "raised (update_display NoFault 300 (toggle_timer 0 totals_only)) = Some KeyError
   \<and> \<not> is_running (state_of (update_display NoFault 300 (toggle_timer 0 totals_only)))
   \<and> stats (state_of (update_display NoFault 300 (toggle_timer 0 totals_only))) =
       JObj [(''total_sessions'', JInt 3)]
   \<and> effects (state_of (update_display NoFault 300 (toggle_timer 0 totals_only))) =
       [PlaySound ''finish'', Notification ''Timer Finished!'']"
proof -
  let ?s = "toggle_timer 0 totals_only"
  have m0: "mode totals_only \<in> set [''timer'', ''countdown'', ''pomodoro'']"
    by (simp add: totals_only_fields)
  have m: "mode ?s \<in> set [''timer'', ''countdown'', ''pomodoro'']"
    by (simp add: totals_only_fields)
  show ?thesis
    by (simp add: tick_raised [OF m] count_down_raised tick_running [OF m] tick_stats [OF m]
        tick_effects [OF m] toggle_timer_start_time [OF m0] totals_only_fields
        counted_def count_error_def increment_def)
qed

section \<open>The claims\<close>

subsection \<open>Reset\<close>

text \<open>
  C10. \<^verbatim>\<open>reset_timer\<close> changes only the run-segment state: for every state, clock reading
  and file-system behaviour it returns normally, \<^verbatim>\<open>duration\<close> and \<^verbatim>\<open>mode\<close> are as before,
  \<^verbatim>\<open>is_running\<close> is false, \<^verbatim>\<open>elapsed\<close> is 0 and \<^verbatim>\<open>remaining\<close> is the duration.
\<close>

theorem reset_timer_frame:
  "\<exists>s'. reset_timer fault now s = Inr s'
     \<and> duration s' = duration s \<and> mode s' = mode s
     \<and> \<not> is_running s' \<and> elapsed s' = 0 \<and> remaining s' = of_int (duration s)"
proof -
  let ?s0 = "s\<lparr>is_running := False, elapsed := 0, remaining := of_int (duration s),
                start_btn := ''Start'', progress_value := 0\<rparr>"
  have stopped: "\<not> is_running ?s0" by simp
  obtain s1 where step: "update_display fault now ?s0 = Inr s1"
    using raised_None_Inr [OF update_display_stopped(1) [OF stopped]] by blast
  have s1: "mode s1 = mode s" "duration s1 = duration s" "\<not> is_running s1"
    "elapsed s1 = 0" "remaining s1 = of_int (duration s)"
    using update_display_stopped [OF stopped, of fault now] by (simp_all add: step)
  have "reset_timer fault now s = Inr (s1\<lparr>status_bar := ''Reset''\<rparr>)"
    by (simp add: reset_timer_def step)
  then show ?thesis using s1 by simp
qed

theorem reset_timer_frame_witness:
  "\<exists>s'. reset_timer NoFault 42 (toggle_timer 0 timer_ready) = Inr s'
     \<and> duration s' = 300 \<and> mode s' = ''timer''
     \<and> \<not> is_running s' \<and> elapsed s' = 0 \<and> remaining s' = 300"
  using reset_timer_frame [of NoFault 42 "toggle_timer 0 timer_ready"]
  by simp

subsection \<open>Monotone countdown\<close>

text \<open>
  C6. In a running timer, countdown or pomodoro session with no operation between the
  ticks, for two tick times \<open>t1 < t2\<close> the remaining time at \<open>t2\<close> is at most the remaining
  time at \<open>t1\<close>, and it is never negative. This holds for the second of two successive
  ticks (the first may have stopped the timer or raised) and for two ticks taken from the
  same state alike.
\<close>

theorem remaining_monotone:
  assumes "mode s \<in> set [''timer'', ''countdown'', ''pomodoro'']"
    and "is_running s"
    and "t1 < t2"
  shows "remaining (state_of (update_display f2 t2 (state_of (update_display f1 t1 s))))
           \<le> remaining (state_of (update_display f1 t1 s))
       \<and> remaining (state_of (update_display f2 t2 s))
           \<le> remaining (state_of (update_display f1 t1 s))
       \<and> 0 \<le> remaining (state_of (update_display f1 t1 s))
       \<and> 0 \<le> remaining (state_of (update_display f2 t2 (state_of (update_display f1 t1 s))))"
proof -
  let ?s1 = "state_of (update_display f1 t1 s)"
  have m1: "mode ?s1 \<in> set [''timer'', ''countdown'', ''pomodoro'']"
    using assms(1) by (simp only: tick_frame(1) [OF assms(1)])
  have r1: "remaining ?s1 = max 0 (of_int (duration s) - (t1 - start_time s))"
    using assms(2) by (simp add: tick_remaining [OF assms(1)])
  have r2: "remaining (state_of (update_display f2 t2 ?s1)) =
      (if is_running ?s1 then max 0 (of_int (duration s) - (t2 - start_time s))
       else remaining ?s1)"
    by (simp add: tick_remaining [OF m1] tick_frame [OF assms(1)])
  have r2': "remaining (state_of (update_display f2 t2 s)) =
      max 0 (of_int (duration s) - (t2 - start_time s))"
    using assms(2) by (simp add: tick_remaining [OF assms(1)])
  have le: "max 0 (of_int (duration s) - (t2 - start_time s))
      \<le> max (0::real) (of_int (duration s) - (t1 - start_time s))"
    using assms(3) by simp
  show ?thesis
    using le by (simp only: r2 r2' r1 split: if_splits) simp
qed

theorem remaining_monotone_witness:
  "remaining (state_of (update_display NoFault 200
        (state_of (update_display NoFault 100 (toggle_timer 0 timer_ready)))))
           \<le> remaining (state_of (update_display NoFault 100 (toggle_timer 0 timer_ready)))
   \<and> remaining (state_of (update_display NoFault 100 (toggle_timer 0 timer_ready))) = 200"
proof -
  let ?s = "toggle_timer 0 timer_ready"
  have m: "mode ?s \<in> set [''timer'', ''countdown'', ''pomodoro'']"
    by simp
  have r: "is_running ?s"
    by simp
  have v: "remaining (state_of (update_display NoFault 100 ?s)) = 200"
    by (simp add: tick_remaining [OF m] toggle_timer_start_time)
  show ?thesis
    using remaining_monotone [OF m r, of 100 200 NoFault NoFault] v by simp
qed

subsection \<open>The finishing tick\<close>

text \<open>
  C1, as the code has it. In a running timer, countdown or pomodoro session whose sound
  switch exists, whose duration is not 0 and whose statistics are a JSON object with an
  integer under \<^verbatim>\<open>completed_timers\<close>, the tick at which the remaining time reaches 0 stops
  the timer, adds exactly 1 to \<^verbatim>\<open>completed_timers\<close> and changes no other entry of the
  statistics, plays the finish sound when sounds are enabled, shows the notification, and
  raises only if the statistics file cannot be written. Any run of later ticks while
  stopped returns normally and repeats none of this: statistics and effects stay as the
  finishing tick left them.
\<close>

theorem finish_tick:
  assumes "mode s \<in> set [''timer'', ''countdown'', ''pomodoro'']"
    and "is_running s"
    and "sound_enabled s = Some enabled"
    and "duration s \<noteq> 0"
    and "of_int (duration s) \<le> now - start_time s"
    and "stats s = JObj kv"
    and "map_of kv ''completed_timers'' = Some (JInt n)"
  shows "remaining (state_of (update_display fault now s)) = 0
       \<and> \<not> is_running (state_of (update_display fault now s))
       \<and> stats (state_of (update_display fault now s)) =
           JObj (dict_set kv ''completed_timers'' (JInt (n + 1)))
       \<and> map_of (dict_set kv ''completed_timers'' (JInt (n + 1))) =
           (map_of kv)(''completed_timers'' \<mapsto> JInt (n + 1))
       \<and> effects (state_of (update_display fault now s)) =
           effects s @ (if enabled then [PlaySound ''finish''] else [])
             @ [Notification ''Timer Finished!'']
       \<and> raised (update_display fault now s) = (if fault = NoFault then None else Some OSError)
       \<and> raised (ticks fault' nows (state_of (update_display fault now s))) = None
       \<and> \<not> is_running (state_of (ticks fault' nows (state_of (update_display fault now s))))
       \<and> remaining (state_of (ticks fault' nows (state_of (update_display fault now s)))) = 0
       \<and> stats (state_of (ticks fault' nows (state_of (update_display fault now s)))) =
           stats (state_of (update_display fault now s))
       \<and> effects (state_of (ticks fault' nows (state_of (update_display fault now s)))) =
           effects (state_of (update_display fault now s))"
proof -
  let ?s' = "state_of (update_display fault now s)"
  have zero: "max 0 (of_int (duration s) - (now - start_time s)) = (0::real)"
    using assms(5) by simp
  note cnt = counted_int [OF assms(7)]
  have rem: "remaining ?s' = 0"
    using assms(2) zero by (simp add: tick_remaining [OF assms(1)])
  have run: "\<not> is_running ?s'"
    using assms(4) zero by (simp add: tick_running [OF assms(1)])
  have st: "stats ?s' = JObj (dict_set kv ''completed_timers'' (JInt (n + 1)))"
    using assms(2,3,4) zero by (simp add: tick_stats [OF assms(1)] assms(6) cnt)
  have ef: "effects ?s' = effects s @ (if enabled then [PlaySound ''finish''] else [])
      @ [Notification ''Timer Finished!'']"
    using assms(2,3,4) zero by (simp add: tick_effects [OF assms(1)])
  have ra: "raised (update_display fault now s) = (if fault = NoFault then None else Some OSError)"
    using assms(2,3,4) zero
    by (simp add: tick_raised [OF assms(1)] count_down_raised assms(6) cnt)
  show ?thesis
    using stopped_ticks [OF run, of fault' nows] rem run st ef ra
    by (simp add: map_of_dict_set)
qed

theorem finish_tick_witness:
  "remaining (state_of (update_display NoFault 301 (toggle_timer 0 timer_ready))) = 0
   \<and> stats (state_of (update_display NoFault 301 (toggle_timer 0 timer_ready))) =
       JObj [(''total_sessions'', JInt 0), (''total_time'', JInt 0),
             (''completed_timers'', JInt 1), (''average_duration'', JInt 0)]
   \<and> effects (state_of (update_display NoFault 301 (toggle_timer 0 timer_ready))) =
       [PlaySound ''finish'', Notification ''Timer Finished!'']
   \<and> effects (state_of (ticks NoFault [302, 303]
        (state_of (update_display NoFault 301 (toggle_timer 0 timer_ready))))) =
       [PlaySound ''finish'', Notification ''Timer Finished!'']"
proof -
  let ?s = "toggle_timer 0 timer_ready"
  have m: "mode ?s \<in> set [''timer'', ''countdown'', ''pomodoro'']" by simp
  have r: "is_running ?s" by simp
  have e: "sound_enabled ?s = Some True" by simp
  have d: "duration ?s \<noteq> 0" by simp
  have late: "of_int (duration ?s) \<le> 301 - start_time ?s"
    by (simp add: toggle_timer_start_time)
  have st: "stats ?s = JObj [(''total_sessions'', JInt 0), (''total_time'', JInt 0),
      (''completed_timers'', JInt 0), (''average_duration'', JInt 0)]"
    by simp
  have c: "map_of [(''total_sessions'', JInt 0), (''total_time'', JInt 0),
      (''completed_timers'', JInt 0), (''average_duration'', JInt 0)] ''completed_timers'' =
      Some (JInt 0)"
    by simp
  show ?thesis
    using finish_tick [OF m r e d late st c, of NoFault NoFault "[302, 303]"] by simp
qed

text \<open>
  Against C1 as the specification words it, which also has the tick update the session and
  time totals of the statistics. After a five-minute session that ran to its end, one timer is
  counted as completed while both totals are what they were: 0.
\<close>

theorem statistics_totals_not_updated:
  "remaining (state_of (update_display NoFault 300 (toggle_timer 0 timer_ready))) = 0
   \<and> stats (toggle_timer 0 timer_ready) =
       JObj [(''total_sessions'', JInt 0), (''total_time'', JInt 0),
             (''completed_timers'', JInt 0), (''average_duration'', JInt 0)]
   \<and> stats (state_of (update_display NoFault 300 (toggle_timer 0 timer_ready))) =
       JObj [(''total_sessions'', JInt 0), (''total_time'', JInt 0),
             (''completed_timers'', JInt 1), (''average_duration'', JInt 0)]"
proof -
  let ?s = "toggle_timer 0 timer_ready"
  have m: "mode ?s \<in> set [''timer'', ''countdown'', ''pomodoro'']" by simp
  show ?thesis
    by (simp add: tick_remaining [OF m] tick_stats [OF m] toggle_timer_start_time
        counted_def increment_def add_one_def)
qed

subsection \<open>Setting the duration\<close>

text \<open>
  C5, as the code has it. \<^verbatim>\<open>set_duration\<close> validates nothing: for every state and every
  integer argument, negative ones included, the duration is the argument afterwards; and
  when the timer is not running the call returns normally, the remaining time is the
  argument at once, and the timer is still stopped in the same mode.
\<close>

theorem set_duration_unchecked:
  "duration (state_of (set_duration fault now seconds s)) = seconds
   \<and> (\<not> is_running s \<longrightarrow>
        raised (set_duration fault now seconds s) = None
      \<and> remaining (state_of (set_duration fault now seconds s)) = of_int seconds
      \<and> \<not> is_running (state_of (set_duration fault now seconds s))
      \<and> mode (state_of (set_duration fault now seconds s)) = mode s)"
proof -
  let ?s0 = "s\<lparr>duration := seconds, remaining := of_int seconds\<rparr>"
  have d: "duration (state_of (set_duration fault now seconds s)) = seconds"
    by (simp add: set_duration_state Let_def update_display_duration)
  have "raised (set_duration fault now seconds s) = None
      \<and> remaining (state_of (set_duration fault now seconds s)) = of_int seconds
      \<and> \<not> is_running (state_of (set_duration fault now seconds s))
      \<and> mode (state_of (set_duration fault now seconds s)) = mode s"
    if "\<not> is_running s"
  proof -
    have stopped: "\<not> is_running ?s0" using that by simp
    show ?thesis
      using update_display_stopped [OF stopped, of fault now] that
      by (simp add: set_duration_state Let_def set_duration_raised)
  qed
  with d show ?thesis by blast
qed

theorem set_duration_unchecked_witness:
  "\<not> is_running timer_ready
   \<and> raised (set_duration NoFault 0 600 timer_ready) = None
   \<and> duration (state_of (set_duration NoFault 0 600 timer_ready)) = 600
   \<and> remaining (state_of (set_duration NoFault 0 600 timer_ready)) = 600"
  using set_duration_unchecked [of NoFault 0 600 timer_ready] by simp

text \<open>
  Against C5 as the specification words it, which has a negative argument rejected with the state
  unchanged. On a stopped five-minute timer, \<^verbatim>\<open>set_duration(-5)\<close> returns normally and
  leaves duration and remaining time at \<open>-5\<close>.
\<close>

theorem set_duration_accepts_negative:
  "duration timer_ready = 300
   \<and> raised (set_duration NoFault 0 (- 5) timer_ready) = None
   \<and> duration (state_of (set_duration NoFault 0 (- 5) timer_ready)) = - 5
   \<and> remaining (state_of (set_duration NoFault 0 (- 5) timer_ready)) = - 5"
proof -
  have stopped: "\<not> is_running (timer_ready\<lparr>duration := - 5, remaining := of_int (- 5)\<rparr>)"
    by simp
  show ?thesis
    using update_display_stopped [OF stopped, of NoFault 0]
    by (simp add: set_duration_state Let_def set_duration_raised)
qed

subsection \<open>Thresholds\<close>

text \<open>
  C2 asks that the warning sound, the critical sound and the finish notification each
  occur exactly once, in this order, in every sweep of the remaining time from the
  duration down to 0, whichever values the samples skip. The tick tests
  \<^verbatim>\<open>self.remaining == 120\<close> and \<^verbatim>\<open>self.remaining == 60\<close>. In the five-minute session
  below, sampled half a second before and after each threshold and at the end, the whole
  run returns normally and its only effects are the finish sound and the notification:
  neither the warning nor the critical sound is played.
\<close>

theorem skipped_thresholds_are_silent:
  "raised (ticks NoFault [0, 179.5, 180.5, 239.5, 240.5, 300] (toggle_timer 0 timer_ready)) = None
   \<and> effects (state_of
        (ticks NoFault [0, 179.5, 180.5, 239.5, 240.5, 300] (toggle_timer 0 timer_ready))) =
       [PlaySound ''finish'', Notification ''Timer Finished!'']"
proof -
  let ?s = "toggle_timer 0 timer_ready"
  let ?r = "ticks NoFault [0, 179.5, 180.5, 239.5, 240.5] ?s"
  let ?s5 = "state_of ?r"
  have m: "mode ?s \<in> set [''timer'', ''countdown'', ''pomodoro'']" by simp
  have st0: "start_time ?s = 0" by (simp add: toggle_timer_start_time)
  have q: "\<forall>now \<in> set [0, 179.5, 180.5, 239.5, 240.5]. quiet_sample ?s now"
    by (simp add: quiet_sample_def st0)
  have five: "raised ?r = None \<and> mode ?s5 = mode ?s \<and> is_running ?s5
      \<and> duration ?s5 = duration ?s \<and> start_time ?s5 = start_time ?s
      \<and> sound_enabled ?s5 = sound_enabled ?s \<and> stats ?s5 = stats ?s
      \<and> effects ?s5 = effects ?s"
    by (rule quiet_ticks [OF m _ _ _ q]) (simp_all add: default_theme)
  then obtain s5 where r5: "?r = Inr s5"
    using raised_None_Inr by blast
  have s5: "mode s5 = ''timer''" "is_running s5" "duration s5 = 300" "start_time s5 = 0"
    "sound_enabled s5 = Some True" "effects s5 = []" "count_error (stats s5) = None"
    using five unfolding r5
    by (simp_all add: st0 count_error_def increment_def add_one_def)
  have m5: "mode s5 \<in> set [''timer'', ''countdown'', ''pomodoro'']"
    by (simp add: s5)
  have "ticks NoFault ([0, 179.5, 180.5, 239.5, 240.5] @ [300]) ?s =
      update_display NoFault 300 (state_of ?r)"
    using five by (intro ticks_snoc) blast
  then have split: "ticks NoFault [0, 179.5, 180.5, 239.5, 240.5, 300] ?s =
      update_display NoFault 300 s5"
    by (simp only: r5 state_of_simps append.simps)
  have "raised (update_display NoFault 300 s5) = None"
    by (simp add: tick_raised [OF m5] count_down_raised s5)
  moreover have "effects (state_of (update_display NoFault 300 s5)) =
      [PlaySound ''finish'', Notification ''Timer Finished!'']"
    by (simp add: tick_effects [OF m5] s5)
  ultimately show ?thesis by (simp only: split)
qed

subsection \<open>Pause and resume\<close>

text \<open>
  C3 asks that a start after a pause resumes the countdown from the paused remaining
  time. In the five-minute session below, 200 seconds remain at the pause and at the tick
  taken while paused; the tick that follows the second start finds the timer running
  with 300 seconds remaining. \<^verbatim>\<open>toggle_timer\<close> sets \<^verbatim>\<open>start_time\<close> to the current time
  in the three counting modes and folds the time already run into it in stopwatch mode
  only.
\<close>

theorem resume_restarts_countdown:
  "remaining running_100 = 200
   \<and> \<not> is_running paused_130 \<and> remaining paused_130 = 200
   \<and> is_running resumed_150 \<and> remaining resumed_150 = 300"
proof -
  let ?a = "toggle_timer 0 timer_ready"
  have ma: "mode ?a \<in> set [''timer'', ''countdown'', ''pomodoro'']" by simp
  have b: "mode running_100 = ''timer''" "duration running_100 = 300"
    "is_running running_100" "remaining running_100 = 200"
    unfolding running_100_def
    by (simp_all add: tick_frame [OF ma] tick_running [OF ma] tick_remaining [OF ma]
        toggle_timer_start_time)
  let ?c = "toggle_timer 100 running_100"
  have mc: "mode ?c \<in> set [''timer'', ''countdown'', ''pomodoro'']" by (simp add: b)
  have d: "mode paused_130 = ''timer''" "duration paused_130 = 300"
    "\<not> is_running paused_130" "remaining paused_130 = 200"
    unfolding paused_130_def
    by (simp_all add: tick_frame [OF mc] tick_running [OF mc] tick_remaining [OF mc] b)
  let ?e = "toggle_timer 150 paused_130"
  have me: "mode ?e \<in> set [''timer'', ''countdown'', ''pomodoro'']" by (simp add: d)
  have g: "is_running resumed_150" "remaining resumed_150 = 300"
    unfolding resumed_150_def
    by (simp_all add: tick_running [OF me] tick_remaining [OF me] d toggle_timer_start_time)
  show ?thesis using b d g by simp
qed

subsection \<open>The preset file\<close>

text \<open>
  C8. For every preset mapping, saving the presets and then loading them gives the
  original mapping back, name by name and field by field (\<^verbatim>\<open>name\<close>, \<^verbatim>\<open>duration\<close>,
  \<^verbatim>\<open>warning_time\<close>, \<^verbatim>\<open>critical_time\<close>, \<^verbatim>\<open>sound_enabled\<close>, \<^verbatim>\<open>color_theme\<close>), in the same
  order. The save is one that the file system lets through; the load runs in any state
  that has the same preset file with the content the save left in it, whatever presets
  that state holds in memory.
\<close>

theorem save_then_load_presets:
  assumes "presets_file s' = presets_file s"
    and "fs s' (presets_file s) = fs (state_of (save_presets NoFault s)) (presets_file s)"
  shows "raised (save_presets NoFault s) = None \<and> load_presets s' = Inr (presets s)"
proof -
  have saved: "fs (state_of (save_presets NoFault s)) (presets_file s) =
      Some (Document (presets_doc (presets s)))"
    by (simp add: save_presets_def write_json_cases)
  have "load_presets s' = load_items (map (\<lambda>(name, preset). (name, vars_preset preset)) (presets s))"
    using assms saved by (simp add: load_presets_def presets_doc_def)
  then have "load_presets s' = Inr (presets s)"
    by (simp only: load_items_vars)
  moreover have "raised (save_presets NoFault s) = None"
    by (simp add: save_presets_def write_json_cases)
  ultimately show ?thesis by simp
qed

theorem save_then_load_presets_witness:
  "presets restarted = []
   \<and> presets_file restarted = presets_file egg_added
   \<and> fs restarted (presets_file egg_added) =
       fs (state_of (save_presets NoFault egg_added)) (presets_file egg_added)
   \<and> load_presets restarted = Inr [(''tea'', tea), (''egg'', egg)]"
proof -
  have same_file: "presets_file restarted = presets_file egg_added"
    by (simp add: restarted_def egg_added_def tea_saved_def initial_def timer_ready_def
        save_presets_def write_json_cases)
  have content: "fs restarted (presets_file egg_added) =
      fs (state_of (save_presets NoFault egg_added)) (presets_file egg_added)"
    by (simp add: restarted_def)
  have "presets restarted = []"
    by (simp add: restarted_def initial_def)
  moreover have "presets egg_added = [(''tea'', tea), (''egg'', egg)]"
    by (simp add: egg_added_def)
  ultimately show ?thesis
    using save_then_load_presets [OF same_file content] same_file content by simp
qed

text \<open>
  C7, as the code has it. \<^verbatim>\<open>save_presets\<close> and \<^verbatim>\<open>save_stats\<close> write the document into
  the persisted file itself. When nothing fails the file holds the new document. When the
  file cannot be opened the files are as before. When the write fails after the file has
  been opened, the file is left incomplete. Either failure is raised to the caller.
\<close>

theorem save_writes_in_place:
  "(fault = NoFault \<longrightarrow>
      raised (save_presets fault s) = None
    \<and> fs (state_of (save_presets fault s)) (presets_file s) =
        Some (Document (presets_doc (presets s)))
    \<and> raised (save_stats fault s) = None
    \<and> fs (state_of (save_stats fault s)) (stats_file s) =
        Some (Document (stats s)))
   \<and> (fault = OpenFails \<longrightarrow>
      raised (save_presets fault s) = Some OSError
    \<and> fs (state_of (save_presets fault s)) = fs s
    \<and> raised (save_stats fault s) = Some OSError
    \<and> fs (state_of (save_stats fault s)) = fs s)
   \<and> (fault = WriteFails \<longrightarrow>
      raised (save_presets fault s) = Some OSError
    \<and> fs (state_of (save_presets fault s)) (presets_file s) = Some Partial
    \<and> raised (save_stats fault s) = Some OSError
    \<and> fs (state_of (save_stats fault s)) (stats_file s) = Some Partial)"
  by (simp add: save_presets_def save_stats_def write_json_cases)

theorem save_writes_in_place_witness:
  "fs (state_of (save_presets NoFault egg_added)) (presets_file egg_added) =
      Some (Document (presets_doc [(''tea'', tea), (''egg'', egg)]))
   \<and> fs (state_of (save_presets OpenFails egg_added)) = fs egg_added
   \<and> fs (state_of (save_presets WriteFails egg_added)) (presets_file egg_added) = Some Partial"
  using save_writes_in_place [of NoFault egg_added] save_writes_in_place [of OpenFails egg_added]
    save_writes_in_place [of WriteFails egg_added]
  by (simp add: egg_added_def)

text \<open>
  Against C7 as the specification words it, which has any failed write leave the previous
  file untouched: the file holds the saved preset \<^verbatim>\<open>tea\<close>; a save of two presets whose
  write fails raises \<^verbatim>\<open>OSError\<close> and leaves the file incomplete, the saved document gone.
\<close>

theorem failed_write_loses_previous_file:
  "fs egg_added (presets_file egg_added) = Some (Document (presets_doc [(''tea'', tea)]))
   \<and> raised (save_presets WriteFails egg_added) = Some OSError
   \<and> fs (state_of (save_presets WriteFails egg_added)) (presets_file egg_added) = Some Partial"
  by (simp add: egg_added_def tea_saved_def save_presets_def write_json_cases)

subsection \<open>The remote-control thread\<close>

text \<open>
  C4 asks that the server answers \<^verbatim>\<open>GET /status\<close> with the time and turns
  \<^verbatim>\<open>GET /command/...\<close> into operations of the timer. The thread that
  \<^verbatim>\<open>start_web_server\<close> starts serves no request: whatever the network calls return, it
  leaves mode, running flag, start time, duration, elapsed and remaining time, displayed
  time, statistics and effects as they were.
\<close>

theorem remote_thread_calls_no_operation:
  "mode (run_server net s) = mode s
   \<and> is_running (run_server net s) = is_running s
   \<and> start_time (run_server net s) = start_time s
   \<and> duration (run_server net s) = duration s
   \<and> elapsed (run_server net s) = elapsed s
   \<and> remaining (run_server net s) = remaining s
   \<and> time_display_text (run_server net s) = time_display_text s
   \<and> stats (run_server net s) = stats s
   \<and> effects (run_server net s) = effects s"
  by (simp add: run_server_def split: option.splits prod.splits)

end
